theory Spec2Isabelle
  imports Complex_Main "HOL-Library.Word"
begin

section \<open>Python building blocks\<close>

datatype py_error = ZeroDivisionError | IndexError | ValueError

text \<open>
  Python's \<^verbatim>\<open>xs[i:j]\<close> on a list: a negative bound counts from the end, and both
  bounds are clamped to the list, so a slice never raises.
\<close>

definition slice_bound :: "nat \<Rightarrow> int \<Rightarrow> nat" where
  "slice_bound len k =
     (if k < 0 then nat (max 0 (k + int len)) else nat (min k (int len)))"

definition py_slice :: "'a list \<Rightarrow> int \<Rightarrow> int \<Rightarrow> 'a list" where
  "py_slice xs i j =
     drop (slice_bound (length xs) i) (take (slice_bound (length xs) j) xs)"

text \<open>\<^verbatim>\<open>range(lo, hi)\<close> for a start that is not negative; empty when \<open>hi \<le> lo\<close>.\<close>

definition py_range :: "nat \<Rightarrow> int \<Rightarrow> nat list" where
  "py_range lo hi = [lo ..< nat hi]"

section \<open>Frame-sequence windower\<close>

text \<open>
  A frame is what \<^verbatim>\<open>cv2.imread(path, 0)\<close> followed by \<^verbatim>\<open>cv2.resize\<close> gives: rows of
  8-bit grey values.
\<close>

type_synonym frame = "8 word list list"

text \<open>\<^verbatim>\<open>np.all(image == 0)\<close>\<close>

definition is_completely_black :: "frame \<Rightarrow> bool" where
  "is_completely_black img = list_all (list_all (\<lambda>p. p = 0)) img"

text \<open>The offsets the comprehension runs over: \<^verbatim>\<open>range(0, len(X)-(2*ws)+1)\<close>.\<close>

definition window_starts :: "frame list \<Rightarrow> nat \<Rightarrow> nat list" where
  "window_starts X ws = py_range 0 (int (length X) - (2 * int ws) + 1)"

text \<open>
  \<^verbatim>\<open>[X[n:n+ws] for n in range(0, len(X)-(2*ws)+1)
     if not any(is_completely_black(img) for img in X[n:n+ws])]\<close>
\<close>

definition temp_series :: "frame list \<Rightarrow> nat \<Rightarrow> frame list list" where
  "temp_series X ws =
     [py_slice X (int n) (int n + int ws).
        n \<leftarrow> window_starts X ws,
        \<not> list_ex is_completely_black (py_slice X (int n) (int n + int ws))]"

text \<open>The offsets whose window passes the filter, in the order of the comprehension.\<close>

definition kept_starts :: "frame list \<Rightarrow> nat \<Rightarrow> nat list" where
  "kept_starts X ws =
     filter (\<lambda>n. \<not> list_ex is_completely_black (py_slice X (int n) (int n + int ws)))
       (window_starts X ws)"


section \<open>Volumes\<close>

text \<open>
  A voxel of a float array is a number or NaN. Numbers are modelled as reals, with exact
  arithmetic: rounding, and with it the final \<^verbatim>\<open>astype("float32")\<close>, is outside the model.
  An infinite value compares like any number beyond the bound it is compared with. NaN
  compares false with everything and comes out of every arithmetic operation as NaN.
\<close>

datatype voxel = Val real | NaN

fun lt_scalar :: "voxel \<Rightarrow> real \<Rightarrow> bool" where
  "lt_scalar (Val x) c = (x < c)"
| "lt_scalar NaN c = False"

fun gt_scalar :: "voxel \<Rightarrow> real \<Rightarrow> bool" where
  "gt_scalar (Val x) c = (x > c)"
| "gt_scalar NaN c = False"

fun le_scalar :: "voxel \<Rightarrow> real \<Rightarrow> bool" where
  "le_scalar (Val x) c = (x \<le> c)"
| "le_scalar NaN c = False"

fun ge_scalar :: "voxel \<Rightarrow> real \<Rightarrow> bool" where
  "ge_scalar (Val x) c = (x \<ge> c)"
| "ge_scalar NaN c = False"

text \<open>Arithmetic with scalars, voxel by voxel.\<close>

fun elementwise :: "(real \<Rightarrow> real) \<Rightarrow> voxel \<Rightarrow> voxel" where
  "elementwise f (Val x) = Val (f x)"
| "elementwise f NaN = NaN"

text \<open>A voxel that is a number of the interval \<open>[0, 1]\<close>.\<close>

fun in_unit :: "voxel \<Rightarrow> bool" where
  "in_unit (Val x) = (0 \<le> x \<and> x \<le> 1)"
| "in_unit NaN = False"

text \<open>A numpy array is its shape and its flat buffer.\<close>

record ndarray =
  shape :: "nat list"
  data :: "voxel list"

text \<open>Masked assignment \<^verbatim>\<open>a[mask] = c\<close>, with the mask given by a test on each element.\<close>

definition assign_where :: "(voxel \<Rightarrow> bool) \<Rightarrow> voxel \<Rightarrow> voxel list \<Rightarrow> voxel list" where
  "assign_where sel c xs = map (\<lambda>x. if sel x then c else x) xs"

subsection \<open>normalize\<close>

text \<open>The source's \<^verbatim>\<open>normalize\<close>; its locals \<^verbatim>\<open>min\<close> and \<^verbatim>\<open>max\<close> are \<open>min_hu\<close> and \<open>max_hu\<close> here.\<close>

definition normalize_volume :: "ndarray \<Rightarrow> ndarray" where
  "normalize_volume volume =
     (let min_hu = - 1000;
          max_hu = 400;
          v1 = assign_where (\<lambda>x. lt_scalar x min_hu) (Val min_hu) (data volume);
          v2 = assign_where (\<lambda>x. gt_scalar x max_hu) (Val max_hu) v1;
          v3 = map (elementwise (\<lambda>x. (x - min_hu) / (max_hu - min_hu))) v2
      in volume\<lparr>data := v3\<rparr>)"

text \<open>
  The volume normalizer as the specification words it, with the clip bounds as inputs:
  values are clipped to \<open>[low, high]\<close> and then linearly rescaled to \<open>[0, 1]\<close>. It is
  meant for \<open>low < high\<close>.
\<close>

definition normalize_bounds :: "real \<Rightarrow> real \<Rightarrow> ndarray \<Rightarrow> ndarray" where
  "normalize_bounds low high volume =
     volume\<lparr>data :=
       map (elementwise (\<lambda>x. (max low (min high x) - low) / (high - low))) (data volume)\<rparr>"

subsection \<open>resize_volume\<close>

text \<open>\<^verbatim>\<open>img.shape[k]\<close>: a negative index counts from the end; out of range raises.\<close>

definition shape_at :: "ndarray \<Rightarrow> int \<Rightarrow> py_error + nat" where
  "shape_at img k =
     (let n = int (length (shape img)); j = (if k < 0 then n + k else k)
      in if 0 \<le> j \<and> j < n then Inr (shape img ! nat j) else Inl IndexError)"

text \<open>Python's \<^verbatim>\<open>a / b\<close> on numbers raises on a zero divisor.\<close>

definition py_truediv :: "real \<Rightarrow> real \<Rightarrow> py_error + real" where
  "py_truediv a b = (if b = 0 then Inl ZeroDivisionError else Inr (a / b))"

text \<open>
  \<^verbatim>\<open>ndimage.rotate(img, angle, reshape=False)\<close> and \<^verbatim>\<open>ndimage.zoom(img, factors, order=1)\<close>
  belong to an external library and are parameters of the model.
\<close>

definition resize_volume ::
  "(ndarray \<Rightarrow> real \<Rightarrow> ndarray) \<Rightarrow> (ndarray \<Rightarrow> real list \<Rightarrow> ndarray) \<Rightarrow> ndarray
     \<Rightarrow> py_error + ndarray" where
  "resize_volume ndimage_rotate ndimage_zoom img =
     (let desired_depth = 64; desired_width = 128; desired_height = 128 in
      (case shape_at img (- 1) of Inl e \<Rightarrow> Inl e | Inr current_depth \<Rightarrow>
      (case shape_at img 0 of Inl e \<Rightarrow> Inl e | Inr current_width \<Rightarrow>
      (case shape_at img 1 of Inl e \<Rightarrow> Inl e | Inr current_height \<Rightarrow>
      (let depth = real current_depth / desired_depth;
           width = real current_width / desired_width;
           height = real current_height / desired_height in
      (case py_truediv 1 depth of Inl e \<Rightarrow> Inl e | Inr depth_factor \<Rightarrow>
      (case py_truediv 1 width of Inl e \<Rightarrow> Inl e | Inr width_factor \<Rightarrow>
      (case py_truediv 1 height of Inl e \<Rightarrow> Inl e | Inr height_factor \<Rightarrow>
         Inr (ndimage_zoom (ndimage_rotate img 90)
                [width_factor, height_factor, depth_factor])))))))))"

text \<open>
  \<^verbatim>\<open>process_scan\<close>, from the volume that \<^verbatim>\<open>read_nifti_file(path)\<close> has read.
\<close>

definition process_scan ::
  "(ndarray \<Rightarrow> real \<Rightarrow> ndarray) \<Rightarrow> (ndarray \<Rightarrow> real list \<Rightarrow> ndarray) \<Rightarrow> ndarray
     \<Rightarrow> py_error + ndarray" where
  "process_scan ndimage_rotate ndimage_zoom volume =
     resize_volume ndimage_rotate ndimage_zoom (normalize_volume volume)"

text \<open>
  What the theorems take from the library. With \<^verbatim>\<open>reshape=False\<close> a rotation returns an
  array of the input's shape. A zoom returns, along each axis, the input's length times
  the factor, rounded by Python's \<^verbatim>\<open>round\<close> (ties go to the even integer).
\<close>

definition py_round :: "real \<Rightarrow> int" where
  "py_round x =
     (let f = \<lfloor>x\<rfloor>; d = x - of_int f
      in if d < 1 / 2 then f else if d > 1 / 2 then f + 1 else if even f then f else f + 1)"

definition rotate_keeps_shape :: "(ndarray \<Rightarrow> real \<Rightarrow> ndarray) \<Rightarrow> bool" where
  "rotate_keeps_shape rot = (\<forall>v a. shape (rot v a) = shape v)"

definition zoom_output_shape :: "nat list \<Rightarrow> real list \<Rightarrow> nat list" where
  "zoom_output_shape sh factors = map2 (\<lambda>ii jj. nat (py_round (real ii * jj))) sh factors"

definition zoom_shape_rule :: "(ndarray \<Rightarrow> real list \<Rightarrow> ndarray) \<Rightarrow> bool" where
  "zoom_shape_rule zoom =
     (\<forall>v factors. length factors = length (shape v) \<longrightarrow>
        shape (zoom v factors) = zoom_output_shape (shape v) factors)"

text \<open>
  Two sample library functions that obey these rules, for instantiating the theorems: a
  rotation that mirrors the buffer and overshoots the value range (as spline
  interpolation may) and hands a NaN voxel on, and a zoom that fills the new shape with
  the first voxel.
\<close>

definition sample_rotate :: "ndarray \<Rightarrow> real \<Rightarrow> ndarray" where
  "sample_rotate v a = v\<lparr>data := map (elementwise (\<lambda>x. 2 * x - 1 / 2)) (rev (data v))\<rparr>"

definition sample_zoom :: "ndarray \<Rightarrow> real list \<Rightarrow> ndarray" where
  "sample_zoom v factors =
     (let sh = zoom_output_shape (shape v) factors
      in \<lparr>shape = sh,
          data = replicate (prod_list sh) (case data v of [] \<Rightarrow> Val 0 | x # _ \<Rightarrow> x)\<rparr>)"

subsection \<open>Rotation augmentation\<close>




section \<open>Dataset split\<close>

text \<open>
  An array of examples is the list of its examples along axis 0, together with the shape
  each example has (the array's shape without its first entry). \<^verbatim>\<open>np.array\<close> of a
  non-empty list of scans of shape (128, 128, 64) has 4 dimensions and the example shape
  (128, 128, 64); \<^verbatim>\<open>np.array([])\<close>, what a class without scans gives, has one dimension of
  length 0, so no examples and the empty example shape.
\<close>

record 'a np_array =
  row_shape :: "nat list"
  rows :: "'a list"

text \<open>
  \<^verbatim>\<open>np.concatenate(arrays, axis=0)\<close> needs at least one array, and raises ValueError unless
  all arrays have the same number of dimensions and agree on every axis but the first.
\<close>

fun np_concatenate :: "'a np_array list \<Rightarrow> py_error + 'a np_array" where
  "np_concatenate [] = Inl ValueError"
| "np_concatenate (a # as) =
     (if list_all (\<lambda>b. row_shape b = row_shape a) as
      then Inr \<lparr>row_shape = row_shape a, rows = concat (map rows (a # as))\<rparr>
      else Inl ValueError)"

text \<open>
  \<^verbatim>\<open>a[:k]\<close> and \<^verbatim>\<open>a[k:]\<close> slice along axis 0; the missing bound is the start or the end of
  the array.
\<close>

definition slice_to :: "'a np_array \<Rightarrow> int \<Rightarrow> 'a np_array" where
  "slice_to a k = a\<lparr>rows := py_slice (rows a) 0 k\<rparr>"

definition slice_from :: "'a np_array \<Rightarrow> int \<Rightarrow> 'a np_array" where
  "slice_from a k = a\<lparr>rows := py_slice (rows a) k (int (length (rows a)))\<rparr>"

text \<open>\<^verbatim>\<open>np.array([1 for _ in range(len(abnormal_scans))])\<close>, and the same with 0.\<close>

definition abnormal_labels :: "'a np_array \<Rightarrow> int np_array" where
  "abnormal_labels abnormal_scans =
     \<lparr>row_shape = [], rows = [1. u \<leftarrow> py_range 0 (int (length (rows abnormal_scans)))]\<rparr>"

definition normal_labels :: "'a np_array \<Rightarrow> int np_array" where
  "normal_labels normal_scans =
     \<lparr>row_shape = [], rows = [0. u \<leftarrow> py_range 0 (int (length (rows normal_scans)))]\<rparr>"

record 'a split =
  x_train :: "'a np_array"
  y_train :: "int np_array"
  x_val :: "'a np_array"
  y_val :: "int np_array"

text \<open>
  The four assignments of the split, in the order of the source; the first that raises
  ends the cell.
\<close>

definition train_val_split :: "'a np_array \<Rightarrow> 'a np_array \<Rightarrow> py_error + 'a split" where
  "train_val_split abnormal_scans normal_scans =
     (case np_concatenate [slice_to abnormal_scans 70, slice_to normal_scans 70] of
        Inl e \<Rightarrow> Inl e | Inr xt \<Rightarrow>
     (case np_concatenate [slice_to (abnormal_labels abnormal_scans) 70,
                           slice_to (normal_labels normal_scans) 70] of
        Inl e \<Rightarrow> Inl e | Inr yt \<Rightarrow>
     (case np_concatenate [slice_from abnormal_scans 70, slice_from normal_scans 70] of
        Inl e \<Rightarrow> Inl e | Inr xv \<Rightarrow>
     (case np_concatenate [slice_from (abnormal_labels abnormal_scans) 70,
                           slice_from (normal_labels normal_scans) 70] of
        Inl e \<Rightarrow> Inl e | Inr yv \<Rightarrow>
          Inr \<lparr>x_train = xt, y_train = yt, x_val = xv, y_val = yv\<rparr>))))"

section \<open>Sample inputs\<close>

text \<open>A one-pixel frame of a given grey value.\<close>

definition grey :: "8 word \<Rightarrow> frame" where
  "grey p = [[p]]"

text \<open>Ten different frames; only the one at index 4 is black.\<close>

definition ten_frames :: "frame list" where
  "ten_frames =
     [grey 1, grey 2, grey 3, grey 4, grey 0, grey 6, grey 7, grey 8, grey 9, grey 10]"

text \<open>A volume of five voxels that reaches beyond both clip bounds.\<close>

definition five_voxels :: ndarray where
  "five_voxels =
     \<lparr>shape = [1, 1, 5], data = [Val (- 1200), Val (- 1000), Val 0, Val 400, Val 500]\<rparr>"

text \<open>A volume of two voxels whose values lie in \<open>[0, 1]\<close>.\<close>

definition unit_voxels :: ndarray where
  "unit_voxels = \<lparr>shape = [1, 1, 2], data = [Val 0, Val (1 / 2)]\<rparr>"

text \<open>A volume of two voxels, one of them NaN.\<close>

definition nan_voxels :: ndarray where
  "nan_voxels = \<lparr>shape = [1, 1, 2], data = [Val (1 / 2), NaN]\<rparr>"

text \<open>A volume with the shape of a scan: 100 by 100 by 50 voxels, all of value 1/4.\<close>

definition scan_shaped :: ndarray where
  "scan_shaped = \<lparr>shape = [100, 100, 50], data = replicate 500000 (Val (1 / 4))\<rparr>"

text \<open>
  Processed scans, told apart by a number, and the class array of the scans of given
  numbers; the array of a class without scans.
\<close>

definition full_scan :: "nat \<Rightarrow> ndarray" where
  "full_scan k = \<lparr>shape = [128, 128, 64], data = replicate 1048576 (Val (real k / 1000))\<rparr>"

definition class_of :: "nat list \<Rightarrow> ndarray np_array" where
  "class_of ks = \<lparr>row_shape = [128, 128, 64], rows = map full_scan ks\<rparr>"

definition empty_class :: "ndarray np_array" where
  "empty_class = \<lparr>row_shape = [], rows = []\<rparr>"

section \<open>Slices and ranges\<close>

lemma slice_bound_nat: "slice_bound len (int k) = min k len"
  by (simp add: slice_bound_def min_def)

lemma py_slice_nat: "py_slice xs (int i) (int i + int w) = take w (drop i xs)"
proof -
  have "int i + int w = int (i + w)" by simp
  then have "py_slice xs (int i) (int i + int w)
      = drop (min i (length xs)) (take (min (i + w) (length xs)) xs)"
    unfolding py_slice_def by (simp only: slice_bound_nat)
  also have "\<dots> = take w (drop i xs)"
    by (simp add: drop_take min_def)
  finally show ?thesis .
qed

lemma window_starts_upt: "window_starts X ws = [0 ..< length X + 1 - 2 * ws]"
proof -
  have "nat (int (length X) - 2 * int ws + 1) = length X + 1 - 2 * ws" by linarith
  then show ?thesis by (simp add: window_starts_def py_range_def)
qed

lemma comprehension_map_filter:
  "concat (map (\<lambda>n. if P n then [f n] else []) ns) = map f (filter P ns)"
  by (induction ns) simp_all

lemma temp_series_kept:
  "temp_series X ws = map (\<lambda>n. py_slice X (int n) (int n + int ws)) (kept_starts X ws)"
  unfolding temp_series_def kept_starts_def by (rule comprehension_map_filter)

lemma py_slice_nonneg:
  "0 \<le> i \<Longrightarrow> 0 \<le> j \<Longrightarrow> py_slice xs i j = drop (nat i) (take (nat j) xs)"
proof -
  assume "0 \<le> i" "0 \<le> j"
  then obtain a b where ab: "i = int a" "j = int b"
    using nonneg_int_cases by metis
  have "drop (min a (length xs)) (take (min b (length xs)) xs) = drop a (take b xs)"
    by (cases "a \<le> length xs") (simp_all add: min_def)
  then show ?thesis by (simp add: ab py_slice_def slice_bound_nat)
qed

lemmas windower_eval =
  kept_starts_def window_starts_upt py_slice_nonneg is_completely_black_def upt_conv_Cons

section \<open>Frame-sequence windower: properties\<close>

lemma window_full_length:
  assumes "n \<in> set (window_starts X ws)"
  shows "length (py_slice X (int n) (int n + int ws)) = ws"
proof -
  from assms have "n < length X + 1 - 2 * ws" by (simp add: window_starts_upt)
  then have "n + ws \<le> length X" by linarith
  then show ?thesis by (simp add: py_slice_nat)
qed

text \<open>
  Claim C3. For every list of frames and every window size, each window of
  \<open>temp_series\<close> has exactly \<open>ws\<close> frames and none of them is completely black; the
  start offsets the comprehension runs over are exactly those below
  \<open>len(X) - 2*ws + 1\<close>; and the result lists, in order, the windows at the offsets of
  that range that pass the filter.
\<close>

theorem windows_full_and_clean:
  "(\<forall>w \<in> set (temp_series X ws).
      length w = ws \<and> (\<forall>img \<in> set w. \<not> is_completely_black img))
   \<and> set (window_starts X ws) = {n. int n < int (length X) - 2 * int ws + 1}
   \<and> temp_series X ws =
       map (\<lambda>n. py_slice X (int n) (int n + int ws))
         (filter (\<lambda>n. \<not> list_ex is_completely_black (py_slice X (int n) (int n + int ws)))
            (window_starts X ws))"
proof (intro conjI ballI)
  fix w assume w: "w \<in> set (temp_series X ws)"
  then obtain n where n: "n \<in> set (window_starts X ws)"
      and clean: "\<not> list_ex is_completely_black (py_slice X (int n) (int n + int ws))"
      and weq: "w = py_slice X (int n) (int n + int ws)"
    by (auto simp: temp_series_kept kept_starts_def)
  show "length w = ws" using n weq by (simp add: window_full_length)
  fix img assume "img \<in> set w"
  with clean weq show "\<not> is_completely_black img" by (auto simp: list_ex_iff)
next
  show "set (window_starts X ws) = {n. int n < int (length X) - 2 * int ws + 1}"
    by (auto simp: window_starts_def py_range_def)
next
  show "temp_series X ws =
       map (\<lambda>n. py_slice X (int n) (int n + int ws))
         (filter (\<lambda>n. \<not> list_ex is_completely_black (py_slice X (int n) (int n + int ws)))
            (window_starts X ws))"
    using temp_series_kept [of X ws] by (simp add: kept_starts_def)
qed

theorem windows_full_and_clean_witness:
  "temp_series ten_frames 3 = [[grey 1, grey 2, grey 3], [grey 2, grey 3, grey 4]]
   \<and> length [grey 2, grey 3, grey 4] = 3
   \<and> \<not> is_completely_black (grey 4)
   \<and> set (window_starts ten_frames 3) = {n. int n < int (length ten_frames) - 2 * 3 + 1}
   \<and> window_starts ten_frames 3 = [0, 1, 2, 3, 4]"
proof -
  have ts: "temp_series ten_frames 3 = [[grey 1, grey 2, grey 3], [grey 2, grey 3, grey 4]]"
    by (simp add: temp_series_kept windower_eval ten_frames_def grey_def)
  have ws: "window_starts ten_frames 3 = [0, 1, 2, 3, 4]"
    by code_simp
  from windows_full_and_clean [of ten_frames 3]
  have all: "\<forall>w \<in> set (temp_series ten_frames 3).
      length w = 3 \<and> (\<forall>img \<in> set w. \<not> is_completely_black img)"
    and starts: "set (window_starts ten_frames 3)
      = {n. int n < int (length ten_frames) - 2 * int 3 + 1}"
    by blast+
  from all ts have "length [grey 2, grey 3, grey 4] = 3" "\<not> is_completely_black (grey 4)"
    by simp_all
  with ts ws starts show ?thesis by simp
qed

text \<open>
  Claim C10. A frame list shorter than \<open>2*ws\<close> yields no window at all, whatever its
  frames are, also when it holds \<open>ws\<close> frames or more and none is black.
\<close>

theorem short_list_no_windows:
  "length X < 2 * ws \<Longrightarrow> temp_series X ws = []"
  by (simp add: temp_series_def window_starts_upt)

theorem short_list_no_windows_witness:
  "length [grey 1, grey 2, grey 3] < 2 * 2 \<and> 2 \<le> length [grey 1, grey 2, grey 3]
   \<and> \<not> list_ex is_completely_black [grey 1, grey 2, grey 3]
   \<and> temp_series [grey 1, grey 2, grey 3] 2 = []"
  using short_list_no_windows [of "[grey 1, grey 2, grey 3]" 2]
  by (simp add: grey_def is_completely_black_def)

text \<open>
  Claim C6, as stated: on ten frames of which only the one at index 4 is black, with
  window size 3, the windows at offsets 5, 6 and 7 are among the results. They are not:
  the comprehension stops before offset 5, and the result holds the windows at offsets
  0 and 1 only.
\<close>

theorem ten_frames_counterexample:
  "temp_series ten_frames 3 = [py_slice ten_frames 0 3, py_slice ten_frames 1 4]
   \<and> py_slice ten_frames 5 8 \<notin> set (temp_series ten_frames 3)
   \<and> py_slice ten_frames 6 9 \<notin> set (temp_series ten_frames 3)
   \<and> py_slice ten_frames 7 10 \<notin> set (temp_series ten_frames 3)
   \<and> kept_starts ten_frames 3 = [0, 1]"
  by (simp add: temp_series_kept windower_eval ten_frames_def grey_def)

lemma list_of_length_ten:
  assumes "length X = 10"
  obtains x0 x1 x2 x3 x4 x5 x6 x7 x8 x9 where "X = [x0, x1, x2, x3, x4, x5, x6, x7, x8, x9]"
proof -
  from assms have "length X = Suc (Suc (Suc (Suc (Suc (Suc (Suc (Suc (Suc (Suc 0)))))))))"
    by simp
  then show ?thesis
    using that by (auto simp: length_Suc_conv)
qed

text \<open>
  Claim C6, amended. For every list of ten frames of which only the one at index 4 is
  black, and window size 3: the offsets run over are 0 to 4, the windows at offsets 2, 3
  and 4 are dropped, and the result is the window at offset 0 followed by the window at
  offset 1. Offsets 5, 6 and 7 lie beyond \<open>len(X) - 2*ws + 1 = 5\<close> and give no window.
\<close>

theorem ten_frames_only_two_windows:
  assumes len: "length X = 10"
    and black: "is_completely_black (X ! 4)"
    and others: "\<forall>i < 10. i \<noteq> 4 \<longrightarrow> \<not> is_completely_black (X ! i)"
  shows "kept_starts X 3 = [0, 1]
    \<and> temp_series X 3 = [py_slice X 0 3, py_slice X 1 4]
    \<and> window_starts X 3 = [0, 1, 2, 3, 4]"
proof -
  from len obtain x0 x1 x2 x3 x4 x5 x6 x7 x8 x9
    where X: "X = [x0, x1, x2, x3, x4, x5, x6, x7, x8, x9]"
    by (rule list_of_length_ten)
  from black X have b4: "is_completely_black x4" by simp
  from others have "\<not> is_completely_black (X ! 0)" "\<not> is_completely_black (X ! 1)"
    "\<not> is_completely_black (X ! 2)" "\<not> is_completely_black (X ! 3)"
    by simp_all
  with X have nb: "\<not> is_completely_black x0" "\<not> is_completely_black x1"
    "\<not> is_completely_black x2" "\<not> is_completely_black x3"
    by simp_all
  have starts: "window_starts X 3 = [0, 1, 2, 3, 4]"
    by (simp add: window_starts_upt X upt_conv_Cons)
  have kept: "kept_starts X 3 = [0, 1]"
    unfolding kept_starts_def starts
    by (simp add: X py_slice_nonneg b4 nb)
  have "temp_series X 3 = [py_slice X 0 3, py_slice X 1 4]"
    by (simp add: temp_series_kept kept)
  with kept starts show ?thesis by simp
qed

theorem ten_frames_only_two_windows_witness:
  "length ten_frames = 10
   \<and> map is_completely_black ten_frames
       = [False, False, False, False, True, False, False, False, False, False]
   \<and> kept_starts ten_frames 3 = [0, 1]
   \<and> temp_series ten_frames 3 = [py_slice ten_frames 0 3, py_slice ten_frames 1 4]"
proof -
  have len: "length ten_frames = 10" by (simp add: ten_frames_def)
  have blacks: "map is_completely_black ten_frames
       = [False, False, False, False, True, False, False, False, False, False]"
    by (simp add: ten_frames_def grey_def is_completely_black_def)
  have black: "is_completely_black (ten_frames ! 4)"
    by (simp add: ten_frames_def grey_def is_completely_black_def)
  have others: "\<forall>i < 10. i \<noteq> 4 \<longrightarrow> \<not> is_completely_black (ten_frames ! i)"
  proof (intro allI impI)
    fix i :: nat assume "i < 10" "i \<noteq> 4"
    then have "i \<in> {0, 1, 2, 3, 5, 6, 7, 8, 9}" by auto
    then show "\<not> is_completely_black (ten_frames ! i)"
      by (auto simp: ten_frames_def grey_def is_completely_black_def)
  qed
  from ten_frames_only_two_windows [OF len black others] len blacks
  show ?thesis by simp
qed

section \<open>Volume normalizer: properties\<close>

lemma normalize_voxel:
  "elementwise (\<lambda>x. (x - (- 1000)) / (400 - (- 1000)))
     (if gt_scalar (if lt_scalar x (- 1000) then Val (- 1000) else x) 400 then Val 400
      else if lt_scalar x (- 1000) then Val (- 1000) else x)
   = elementwise (\<lambda>x. (max (- 1000) (min 400 x) - (- 1000)) / (400 - (- 1000))) x"
  by (cases x) (simp_all add: max_def min_def)

lemma normalize_is_bounds: "normalize_volume v = normalize_bounds (- 1000) 400 v"
  unfolding normalize_volume_def normalize_bounds_def assign_where_def Let_def map_map comp_def
  by (simp only: normalize_voxel)

lemma normalize_data:
  "data (normalize_volume v)
     = map (elementwise (\<lambda>x. (max (- 1000) (min 400 x) + 1000) / 1400)) (data v)"
  by (simp add: normalize_is_bounds normalize_bounds_def)

lemma normalize_shape: "shape (normalize_volume v) = shape v"
  by (simp add: normalize_is_bounds normalize_bounds_def)

text \<open>
  Claim C1, as stated: every value of a normalized volume lies in \<open>[0, 1]\<close>. A NaN
  voxel is neither below \<open>-1000\<close> nor above 400, so neither mask touches it, and the
  rescale leaves it NaN, which is no value of \<open>[0, 1]\<close>.
\<close>

theorem normalize_nan_counterexample:
  "data (normalize_volume nan_voxels) = [Val (2001 / 2800), NaN]
   \<and> \<not> in_unit NaN
   \<and> \<not> list_all in_unit (data (normalize_volume nan_voxels))"
  by (simp add: normalize_data nan_voxels_def)

text \<open>
  Claim C1, amended. For every volume, a voxel that is not NaN is normalized to a value
  in \<open>[0, 1]\<close>, and a NaN voxel stays NaN; so every value of the normalized volume lies
  in \<open>[0, 1]\<close> when the volume holds no NaN. A value at or below the low clip bound
  \<open>-1000\<close> becomes exactly 0 and a value at or above the high clip bound 400 becomes
  exactly 1. The shape and the number of voxels are kept.
\<close>

theorem normalize_into_unit_interval:
  "(NaN \<notin> set (data v) \<longrightarrow> (\<forall>x \<in> set (data (normalize_volume v)). in_unit x))
   \<and> shape (normalize_volume v) = shape v
   \<and> length (data (normalize_volume v)) = length (data v)
   \<and> (\<forall>i < length (data v).
        (data v ! i \<noteq> NaN \<longrightarrow> in_unit (data (normalize_volume v) ! i))
      \<and> (data v ! i = NaN \<longrightarrow> data (normalize_volume v) ! i = NaN)
      \<and> (le_scalar (data v ! i) (- 1000) \<longrightarrow> data (normalize_volume v) ! i = Val 0)
      \<and> (ge_scalar (data v ! i) 400 \<longrightarrow> data (normalize_volume v) ! i = Val 1))"
proof (intro conjI ballI allI impI)
  fix x assume nonan: "NaN \<notin> set (data v)" and "x \<in> set (data (normalize_volume v))"
  then obtain y where y: "y \<in> set (data v)"
      and x: "x = elementwise (\<lambda>x. (max (- 1000) (min 400 x) + 1000) / 1400) y"
    by (auto simp: normalize_data)
  from y nonan have "y \<noteq> NaN" by auto
  then obtain r where "y = Val r" by (metis voxel.exhaust)
  then show "in_unit x" unfolding x by (simp add: max_def min_def)
next
  show "shape (normalize_volume v) = shape v" by (rule normalize_shape)
next
  show "length (data (normalize_volume v)) = length (data v)" by (simp add: normalize_data)
next
  fix i assume "i < length (data v)" "data v ! i \<noteq> NaN"
  then show "in_unit (data (normalize_volume v) ! i)"
    by (cases "data v ! i") (simp_all add: normalize_data max_def min_def)
next
  fix i assume "i < length (data v)" "data v ! i = NaN"
  then show "data (normalize_volume v) ! i = NaN" by (simp add: normalize_data)
next
  fix i assume "i < length (data v)" "le_scalar (data v ! i) (- 1000)"
  then show "data (normalize_volume v) ! i = Val 0"
    by (cases "data v ! i") (simp_all add: normalize_data max_def min_def)
next
  fix i assume "i < length (data v)" "ge_scalar (data v ! i) 400"
  then show "data (normalize_volume v) ! i = Val 1"
    by (cases "data v ! i") (simp_all add: normalize_data max_def min_def)
qed

theorem normalize_into_unit_interval_witness:
  "data (normalize_volume five_voxels) = [Val 0, Val 0, Val (5 / 7), Val 1, Val 1]
   \<and> NaN \<notin> set (data five_voxels)
   \<and> list_all in_unit (data (normalize_volume five_voxels))
   \<and> shape (normalize_volume five_voxels) = [1, 1, 5]
   \<and> le_scalar (data five_voxels ! 0) (- 1000) \<and> data (normalize_volume five_voxels) ! 0 = Val 0
   \<and> ge_scalar (data five_voxels ! 4) 400 \<and> data (normalize_volume five_voxels) ! 4 = Val 1"
proof -
  have nonan: "NaN \<notin> set (data five_voxels)" by (simp add: five_voxels_def)
  have lo: "le_scalar (data five_voxels ! 0) (- 1000)" by (simp add: five_voxels_def)
  have hi: "ge_scalar (data five_voxels ! 4) 400" by (simp add: five_voxels_def)
  have len: "0 < length (data five_voxels)" "4 < length (data five_voxels)"
    by (simp_all add: five_voxels_def)
  from normalize_into_unit_interval [of five_voxels] nonan lo hi len
  have all: "\<forall>x \<in> set (data (normalize_volume five_voxels)). in_unit x"
    and low: "data (normalize_volume five_voxels) ! 0 = Val 0"
    and high: "data (normalize_volume five_voxels) ! 4 = Val 1"
    and sh: "shape (normalize_volume five_voxels) = shape five_voxels"
    by blast+
  have "data (normalize_volume five_voxels) = [Val 0, Val 0, Val (5 / 7), Val 1, Val 1]"
    by (simp add: normalize_data five_voxels_def)
  with all low high sh nonan lo hi show ?thesis
    by (simp add: list_all_iff five_voxels_def)
qed

text \<open>
  Claim C8, as stated: normalizing a volume whose values lie in \<open>[0, 1]\<close>, with clip
  bounds that cover its values, leaves it unchanged. It does not: the bounds of the code,
  \<open>-1000\<close> and 400, cover the values 0 and 1/2, which become 5/7 and 2001/2800; with the
  bounds \<open>-1\<close> and 2 the volume changes as well.
\<close>

theorem widened_bounds_counterexample:
  "normalize_volume unit_voxels \<noteq> unit_voxels
   \<and> data (normalize_volume unit_voxels) = [Val (5 / 7), Val (2001 / 2800)]
   \<and> normalize_bounds (- 1) 2 unit_voxels \<noteq> unit_voxels
   \<and> data unit_voxels = [Val 0, Val (1 / 2)]"
  by (simp add: normalize_is_bounds normalize_bounds_def unit_voxels_def)

text \<open>
  Claim C8, amended. On a volume whose values lie in \<open>[0, 1]\<close>, normalization with the
  clip bounds exactly 0 and 1 changes nothing. The code's normalization is the one with
  the bounds \<open>-1000\<close> and 400, and takes each such value \<open>x\<close> to \<open>(x + 1000) / 1400\<close>.
\<close>

theorem normalize_unit_bounds_noop:
  assumes "\<forall>x \<in> set (data v). in_unit x"
  shows "normalize_bounds 0 1 v = v
    \<and> normalize_volume v = normalize_bounds (- 1000) 400 v
    \<and> normalize_volume v = v\<lparr>data := map (elementwise (\<lambda>x. (x + 1000) / 1400)) (data v)\<rparr>"
proof (intro conjI)
  have "map (elementwise (\<lambda>x. (max 0 (min 1 x) - 0) / (1 - 0))) (data v) = map (\<lambda>x. x) (data v)"
  proof (intro map_cong refl)
    fix x assume "x \<in> set (data v)"
    with assms have "in_unit x" by blast
    then show "elementwise (\<lambda>x. (max 0 (min 1 x) - 0) / (1 - 0)) x = x"
      by (cases x) (simp_all add: max_def min_def)
  qed
  then show "normalize_bounds 0 1 v = v" by (simp add: normalize_bounds_def)
  show "normalize_volume v = normalize_bounds (- 1000) 400 v" by (rule normalize_is_bounds)
  have "data (normalize_volume v) = map (elementwise (\<lambda>x. (x + 1000) / 1400)) (data v)"
    unfolding normalize_data
  proof (intro map_cong refl)
    fix x assume "x \<in> set (data v)"
    with assms have "in_unit x" by blast
    then show "elementwise (\<lambda>x. (max (- 1000) (min 400 x) + 1000) / 1400) x
        = elementwise (\<lambda>x. (x + 1000) / 1400) x"
      by (cases x) (simp_all add: max_def min_def)
  qed
  then show "normalize_volume v = v\<lparr>data := map (elementwise (\<lambda>x. (x + 1000) / 1400)) (data v)\<rparr>"
    by (simp add: normalize_is_bounds normalize_bounds_def)
qed

theorem normalize_unit_bounds_noop_witness:
  "normalize_bounds 0 1 unit_voxels = unit_voxels
   \<and> data (normalize_volume unit_voxels) = [Val (5 / 7), Val (2001 / 2800)]"
proof -
  have "\<forall>x \<in> set (data unit_voxels). in_unit x" by (simp add: unit_voxels_def)
  from normalize_unit_bounds_noop [OF this]
  have a: "normalize_bounds 0 1 unit_voxels = unit_voxels"
    and b: "normalize_volume unit_voxels
      = unit_voxels\<lparr>data := map (elementwise (\<lambda>x. (x + 1000) / 1400)) (data unit_voxels)\<rparr>"
    by blast+
  have "data (normalize_volume unit_voxels) = [Val (5 / 7), Val (2001 / 2800)]"
    unfolding b by (simp add: unit_voxels_def)
  with a show ?thesis by simp
qed

section \<open>Volume resampler: properties\<close>

lemma py_round_of_int: "py_round (of_int k) = k"
  by (simp add: py_round_def)

lemma shape_at_3d:
  assumes "shape img = [w, h, d]"
  shows "shape_at img (- 1) = Inr d" "shape_at img 0 = Inr w" "shape_at img 1 = Inr h"
  using assms by (simp_all add: shape_at_def)

lemma sample_rotate_keeps_shape: "rotate_keeps_shape sample_rotate"
  by (simp add: rotate_keeps_shape_def sample_rotate_def)

lemma sample_zoom_shape_rule: "zoom_shape_rule sample_zoom"
  by (simp add: zoom_shape_rule_def sample_zoom_def Let_def)

text \<open>
  Claim C2, as stated: whatever the 3-dimensional shape of the input, the result of
  \<open>resize_volume\<close> has the shape (128, 128, 64). On the shape (0, 1, 1) there is no
  result: the width is \<open>0 / 128 = 0.0\<close>, and \<open>1 / width\<close> raises ZeroDivisionError.
\<close>

theorem resize_empty_counterexample:
  "resize_volume sample_rotate sample_zoom \<lparr>shape = [0, 1, 1], data = []\<rparr>
     = Inl ZeroDivisionError"
  by (simp add: resize_volume_def shape_at_def py_truediv_def)

text \<open>
  Claim C2, amended. For every 3-dimensional volume whose width, height and depth are all
  non-zero, \<open>resize_volume\<close> returns the rotated volume zoomed by the factors
  \<open>128 / width\<close>, \<open>128 / height\<close> and \<open>64 / depth\<close>, and its shape is exactly
  (128, 128, 64); when one of the three is zero, \<open>resize_volume\<close> raises
  ZeroDivisionError. The library enters through its shape rules only: a rotation
  without reshaping keeps the shape, and a zoom rounds length times factor.
\<close>

theorem resize_volume_shape:
  assumes rot: "rotate_keeps_shape ndimage_rotate"
    and zoom: "zoom_shape_rule ndimage_zoom"
    and sh: "shape img = [w, h, d]"
  shows "(0 < w \<and> 0 < h \<and> 0 < d \<longrightarrow>
            resize_volume ndimage_rotate ndimage_zoom img
              = Inr (ndimage_zoom (ndimage_rotate img 90) [128 / real w, 128 / real h, 64 / real d])
          \<and> shape (ndimage_zoom (ndimage_rotate img 90) [128 / real w, 128 / real h, 64 / real d])
              = [128, 128, 64])
       \<and> (w = 0 \<or> h = 0 \<or> d = 0 \<longrightarrow>
            resize_volume ndimage_rotate ndimage_zoom img = Inl ZeroDivisionError)"
proof (intro conjI impI)
  assume pos: "0 < w \<and> 0 < h \<and> 0 < d"
  then show "resize_volume ndimage_rotate ndimage_zoom img
      = Inr (ndimage_zoom (ndimage_rotate img 90) [128 / real w, 128 / real h, 64 / real d])"
    by (simp add: resize_volume_def shape_at_3d [OF sh] py_truediv_def)
  from rot sh have rsh: "shape (ndimage_rotate img 90) = [w, h, d]"
    by (simp add: rotate_keeps_shape_def)
  from pos have "real w * (128 / real w) = of_int 128" "real h * (128 / real h) = of_int 128"
    "real d * (64 / real d) = of_int 64"
    by simp_all
  then have "zoom_output_shape [w, h, d] [128 / real w, 128 / real h, 64 / real d]
      = [128, 128, 64]"
    unfolding zoom_output_shape_def by (simp only: list.map zip_Cons_Cons zip_Nil prod.case py_round_of_int) simp
  with zoom rsh
  show "shape (ndimage_zoom (ndimage_rotate img 90) [128 / real w, 128 / real h, 64 / real d])
      = [128, 128, 64]"
    by (simp add: zoom_shape_rule_def)
next
  assume "w = 0 \<or> h = 0 \<or> d = 0"
  then show "resize_volume ndimage_rotate ndimage_zoom img = Inl ZeroDivisionError"
    by (auto simp add: resize_volume_def shape_at_3d [OF sh] py_truediv_def)
qed

theorem resize_volume_shape_witness:
  "shape (sample_zoom (sample_rotate scan_shaped 90) [128 / 100, 128 / 100, 64 / 50])
     = [128, 128, 64]
   \<and> resize_volume sample_rotate sample_zoom scan_shaped
     = Inr (sample_zoom (sample_rotate scan_shaped 90) [128 / 100, 128 / 100, 64 / 50])
   \<and> resize_volume sample_rotate sample_zoom \<lparr>shape = [0, 1, 1], data = []\<rparr>
     = Inl ZeroDivisionError"
proof -
  have sh: "shape scan_shaped = [100, 100, 50]" by (simp add: scan_shaped_def)
  have sh0: "shape \<lparr>shape = [0, 1, 1], data = []\<rparr> = [0, 1, 1]" by simp
  from resize_volume_shape [OF sample_rotate_keeps_shape sample_zoom_shape_rule sh]
    resize_volume_shape [OF sample_rotate_keeps_shape sample_zoom_shape_rule sh0]
  show ?thesis by simp
qed

text \<open>
  The shape half of the end-to-end run: a scan with non-zero width, height and depth is
  processed to a volume of shape (128, 128, 64). Its values are those the library's
  rotation and zoom compute from the normalized scan; \<open>process_scan\<close> does not clamp them.
\<close>

lemma process_scan_shape:
  assumes rot: "rotate_keeps_shape ndimage_rotate"
    and zoom: "zoom_shape_rule ndimage_zoom"
    and sh: "shape volume = [w, h, d]"
    and pos: "0 < w" "0 < h" "0 < d"
  shows "process_scan ndimage_rotate ndimage_zoom volume
      = Inr (ndimage_zoom (ndimage_rotate (normalize_volume volume) 90)
               [128 / real w, 128 / real h, 64 / real d])"
    and "shape (ndimage_zoom (ndimage_rotate (normalize_volume volume) 90)
               [128 / real w, 128 / real h, 64 / real d]) = [128, 128, 64]"
proof -
  have nsh: "shape (normalize_volume volume) = [w, h, d]"
    using sh by (simp add: normalize_shape)
  from pos show "process_scan ndimage_rotate ndimage_zoom volume
      = Inr (ndimage_zoom (ndimage_rotate (normalize_volume volume) 90)
               [128 / real w, 128 / real h, 64 / real d])"
    by (simp add: process_scan_def resize_volume_def shape_at_3d [OF nsh] py_truediv_def)
  from rot nsh have rsh: "shape (ndimage_rotate (normalize_volume volume) 90) = [w, h, d]"
    by (simp add: rotate_keeps_shape_def)
  from pos have "real w * (128 / real w) = of_int 128" "real h * (128 / real h) = of_int 128"
    "real d * (64 / real d) = of_int 64"
    by simp_all
  then have "zoom_output_shape [w, h, d] [128 / real w, 128 / real h, 64 / real d]
      = [128, 128, 64]"
    unfolding zoom_output_shape_def
    by (simp only: list.map zip_Cons_Cons zip_Nil prod.case py_round_of_int) simp
  with zoom rsh
  show "shape (ndimage_zoom (ndimage_rotate (normalize_volume volume) 90)
               [128 / real w, 128 / real h, 64 / real d]) = [128, 128, 64]"
    by (simp add: zoom_shape_rule_def)
qed

section \<open>Rotation augmentation: properties\<close>








section \<open>Dataset split: properties\<close>

lemma seventy: "(70::int) = int 70" by simp

lemma slice_to_70: "slice_to a 70 = a\<lparr>rows := take 70 (rows a)\<rparr>"
  unfolding slice_to_def seventy using py_slice_nat [of "rows a" 0 70] by simp

lemma slice_from_70: "slice_from a 70 = a\<lparr>rows := drop 70 (rows a)\<rparr>"
proof -
  have "py_slice (rows a) (int 70) (int (length (rows a)))
      = drop (nat (int 70)) (take (nat (int (length (rows a)))) (rows a))"
    by (rule py_slice_nonneg) simp_all
  then show ?thesis unfolding slice_from_def seventy by simp
qed

lemma abnormal_labels_replicate:
  "abnormal_labels a = \<lparr>row_shape = [], rows = replicate (length (rows a)) 1\<rparr>"
  by (simp add: abnormal_labels_def py_range_def map_replicate_const)

lemma normal_labels_replicate:
  "normal_labels a = \<lparr>row_shape = [], rows = replicate (length (rows a)) 0\<rparr>"
  by (simp add: normal_labels_def py_range_def map_replicate_const)

lemma train_val_split_same_shape:
  assumes "row_shape a = row_shape n"
  shows "train_val_split a n =
    Inr \<lparr>x_train = \<lparr>row_shape = row_shape a, rows = take 70 (rows a) @ take 70 (rows n)\<rparr>,
         y_train = \<lparr>row_shape = [],
           rows = replicate (length (take 70 (rows a))) 1
                  @ replicate (length (take 70 (rows n))) 0\<rparr>,
         x_val = \<lparr>row_shape = row_shape a, rows = drop 70 (rows a) @ drop 70 (rows n)\<rparr>,
         y_val = \<lparr>row_shape = [],
           rows = replicate (length (drop 70 (rows a))) 1
                  @ replicate (length (drop 70 (rows n))) 0\<rparr>\<rparr>"
  using assms
  by (simp add: train_val_split_def slice_to_70 slice_from_70 abnormal_labels_replicate
      normal_labels_replicate min.commute)

lemma train_val_split_shapes_differ:
  assumes "row_shape a \<noteq> row_shape n"
  shows "train_val_split a n = Inl ValueError"
  using assms by (auto simp add: train_val_split_def slice_to_70)

lemma zip_replicate_right: "zip xs (replicate (length xs) c) = map (\<lambda>x. (x, c)) xs"
  by (induction xs) simp_all

lemma zip_two_classes:
  "zip (xs @ ys) (replicate (length xs) c @ replicate (length ys) d)
     = map (\<lambda>x. (x, c)) xs @ map (\<lambda>x. (x, d)) ys"
  by (simp only: zip_append length_replicate zip_replicate_right)

lemma empty_class_differs: "row_shape empty_class \<noteq> row_shape (class_of ks)"
  by (simp add: empty_class_def class_of_def)

text \<open>
  Claim C7, as stated: every pair of class arrays is split into a training and a
  validation set. When the abnormal class has no scan, its array is \<^verbatim>\<open>np.array([])\<close>, of
  one dimension, while the normal class array has four: the first \<^verbatim>\<open>np.concatenate\<close>
  raises ValueError and there is no split.
\<close>

theorem split_empty_abnormal_counterexample:
  "train_val_split empty_class (class_of [100 ..< 171]) = Inl ValueError"
  by (rule train_val_split_shapes_differ) (rule empty_class_differs)

text \<open>
  Claim C7, amended. For every pair of class arrays whose examples have the same shape
  (two classes of processed scans, or two classes without scans), the training set is
  the first 70 abnormal examples followed by the first 70 normal examples, and the
  validation set is the remaining abnormal examples followed by the remaining normal
  ones, each in the order of its class array. When the example shapes differ, as they do
  when exactly one class has no scan, the split raises ValueError.
\<close>

theorem split_by_slicing:
  "(row_shape abnormal_scans = row_shape normal_scans \<longrightarrow>
      (\<exists>s. train_val_split abnormal_scans normal_scans = Inr s
         \<and> rows (x_train s) = take 70 (rows abnormal_scans) @ take 70 (rows normal_scans)
         \<and> rows (x_val s) = drop 70 (rows abnormal_scans) @ drop 70 (rows normal_scans)
         \<and> row_shape (x_train s) = row_shape abnormal_scans
         \<and> row_shape (x_val s) = row_shape abnormal_scans))
   \<and> (row_shape abnormal_scans \<noteq> row_shape normal_scans \<longrightarrow>
        train_val_split abnormal_scans normal_scans = Inl ValueError)"
  by (simp add: train_val_split_same_shape train_val_split_shapes_differ)

theorem split_by_slicing_witness:
  "map_sum id (\<lambda>s. rows (x_train s)) (train_val_split (class_of [0 ..< 72]) (class_of [100 ..< 171]))
     = Inr (map full_scan [0 ..< 70] @ map full_scan [100 ..< 170])
   \<and> map_sum id (\<lambda>s. rows (x_val s)) (train_val_split (class_of [0 ..< 72]) (class_of [100 ..< 171]))
     = Inr (map full_scan [70 ..< 72] @ map full_scan [170 ..< 171])
   \<and> train_val_split (class_of [0 ..< 72]) empty_class = Inl ValueError"
proof -
  have same: "row_shape (class_of [0 ..< 72]) = row_shape (class_of [100 ..< 171])"
    by (simp add: class_of_def)
  have differ: "row_shape (class_of [0 ..< 72]) \<noteq> row_shape empty_class"
    by (simp add: class_of_def empty_class_def)
  from split_by_slicing [of "class_of [0 ..< 72]" "class_of [100 ..< 171]"] same
  obtain s where s: "train_val_split (class_of [0 ..< 72]) (class_of [100 ..< 171]) = Inr s"
    and tr: "rows (x_train s)
      = take 70 (rows (class_of [0 ..< 72])) @ take 70 (rows (class_of [100 ..< 171]))"
    and va: "rows (x_val s)
      = drop 70 (rows (class_of [0 ..< 72])) @ drop 70 (rows (class_of [100 ..< 171]))"
    by blast
  from split_by_slicing [of "class_of [0 ..< 72]" empty_class] differ
  have err: "train_val_split (class_of [0 ..< 72]) empty_class = Inl ValueError"
    by blast
  have "rows (x_train s) = map full_scan [0 ..< 70] @ map full_scan [100 ..< 170]"
    unfolding tr by (simp add: class_of_def take_map drop_map)
  moreover have "rows (x_val s) = map full_scan [70 ..< 72] @ map full_scan [170 ..< 171]"
    unfolding va by (simp add: class_of_def take_map drop_map)
  ultimately show ?thesis using s err by simp
qed

text \<open>
  Claim C9, as stated: for every pair of class arrays the split yields examples and
  labels that are aligned. When the normal class has no scan, its array is
  \<^verbatim>\<open>np.array([])\<close>, of one dimension, while the abnormal class array has four: the
  \<^verbatim>\<open>np.concatenate\<close> of the training examples raises ValueError, and no example or label
  array is made.
\<close>

theorem split_empty_normal_counterexample:
  "train_val_split (class_of [0 ..< 72]) empty_class = Inl ValueError"
  by (rule train_val_split_shapes_differ) (rule empty_class_differs [symmetric])

text \<open>
  Claim C9, amended. For every pair of class arrays whose examples have the same shape,
  the training examples and the training labels have the same length, and paired index by
  index they are the first 70 abnormal examples, each with label 1, followed by the first
  70 normal examples, each with label 0; likewise the validation examples and labels,
  over the remaining examples. When the example shapes differ, as they do when exactly
  one class has no scan, the split raises ValueError.
\<close>

theorem split_labels_aligned:
  "(row_shape abnormal_scans = row_shape normal_scans \<longrightarrow>
      (\<exists>s. train_val_split abnormal_scans normal_scans = Inr s
         \<and> length (rows (x_train s)) = length (rows (y_train s))
         \<and> zip (rows (x_train s)) (rows (y_train s))
             = map (\<lambda>x. (x, 1)) (take 70 (rows abnormal_scans))
               @ map (\<lambda>x. (x, 0)) (take 70 (rows normal_scans))
         \<and> length (rows (x_val s)) = length (rows (y_val s))
         \<and> zip (rows (x_val s)) (rows (y_val s))
             = map (\<lambda>x. (x, 1)) (drop 70 (rows abnormal_scans))
               @ map (\<lambda>x. (x, 0)) (drop 70 (rows normal_scans))))
   \<and> (row_shape abnormal_scans \<noteq> row_shape normal_scans \<longrightarrow>
        train_val_split abnormal_scans normal_scans = Inl ValueError)"
proof (intro conjI impI)
  assume "row_shape abnormal_scans = row_shape normal_scans"
  from train_val_split_same_shape [OF this]
  show "\<exists>s. train_val_split abnormal_scans normal_scans = Inr s
         \<and> length (rows (x_train s)) = length (rows (y_train s))
         \<and> zip (rows (x_train s)) (rows (y_train s))
             = map (\<lambda>x. (x, 1)) (take 70 (rows abnormal_scans))
               @ map (\<lambda>x. (x, 0)) (take 70 (rows normal_scans))
         \<and> length (rows (x_val s)) = length (rows (y_val s))
         \<and> zip (rows (x_val s)) (rows (y_val s))
             = map (\<lambda>x. (x, 1)) (drop 70 (rows abnormal_scans))
               @ map (\<lambda>x. (x, 0)) (drop 70 (rows normal_scans))"
    by (simp add: zip_two_classes del: length_take length_drop)
next
  assume "row_shape abnormal_scans \<noteq> row_shape normal_scans"
  then show "train_val_split abnormal_scans normal_scans = Inl ValueError"
    by (rule train_val_split_shapes_differ)
qed

theorem split_labels_aligned_witness:
  "map_sum id (\<lambda>s. zip (rows (x_train s)) (rows (y_train s)))
      (train_val_split (class_of [0 ..< 72]) (class_of [100 ..< 171]))
     = Inr (map (\<lambda>x. (x, 1)) (map full_scan [0 ..< 70])
            @ map (\<lambda>x. (x, 0)) (map full_scan [100 ..< 170]))
   \<and> map_sum id (\<lambda>s. zip (rows (x_val s)) (rows (y_val s)))
      (train_val_split (class_of [0 ..< 72]) (class_of [100 ..< 171]))
     = Inr (map (\<lambda>x. (x, 1)) (map full_scan [70 ..< 72])
            @ map (\<lambda>x. (x, 0)) (map full_scan [170 ..< 171]))
   \<and> train_val_split empty_class (class_of [0 ..< 72]) = Inl ValueError"
proof -
  have same: "row_shape (class_of [0 ..< 72]) = row_shape (class_of [100 ..< 171])"
    by (simp add: class_of_def)
  from split_labels_aligned [of "class_of [0 ..< 72]" "class_of [100 ..< 171]"] same
  obtain s where s: "train_val_split (class_of [0 ..< 72]) (class_of [100 ..< 171]) = Inr s"
    and tr: "zip (rows (x_train s)) (rows (y_train s))
      = map (\<lambda>x. (x, 1)) (take 70 (rows (class_of [0 ..< 72])))
        @ map (\<lambda>x. (x, 0)) (take 70 (rows (class_of [100 ..< 171])))"
    and va: "zip (rows (x_val s)) (rows (y_val s))
      = map (\<lambda>x. (x, 1)) (drop 70 (rows (class_of [0 ..< 72])))
        @ map (\<lambda>x. (x, 0)) (drop 70 (rows (class_of [100 ..< 171])))"
    by blast
  from split_labels_aligned [of empty_class "class_of [0 ..< 72]"] empty_class_differs
  have err: "train_val_split empty_class (class_of [0 ..< 72]) = Inl ValueError"
    by blast
  have "zip (rows (x_train s)) (rows (y_train s))
      = map (\<lambda>x. (x, 1)) (map full_scan [0 ..< 70])
        @ map (\<lambda>x. (x, 0)) (map full_scan [100 ..< 170])"
    unfolding tr by (simp add: class_of_def take_map)
  moreover have "zip (rows (x_val s)) (rows (y_val s))
      = map (\<lambda>x. (x, 1)) (map full_scan [70 ..< 72])
        @ map (\<lambda>x. (x, 0)) (map full_scan [170 ..< 171])"
    unfolding va by (simp add: class_of_def drop_map)
  ultimately show ?thesis using s err by simp
qed

end
